theory Spec2Isabelle
  imports Main
begin

section \<open>Time, dates and time zones\<close>

text \<open>
  A UTC instant is a number of microseconds since 1970-01-01T00:00:00Z (the resolution of
  Python's \<open>datetime\<close>); a calendar date is a number of days since 1970-01-01, so that
  \<open>d - timedelta(days=1)\<close> is \<open>d - 1\<close>. Instants and dates are taken inside the range
  \<open>datetime\<close> can represent, so the \<open>OverflowError\<close> of date arithmetic at year 1 or
  9999 is not a branch of the model.
\<close>

type_synonym instant = int
type_synonym date = int

abbreviation SEC :: int where "SEC \<equiv> 1000000"
abbreviation DAY :: int where "DAY \<equiv> 86400 * SEC"

text \<open>
  The time-zone database is not part of the repository: a zone is taken as the table a
  TZif file holds, the UTC offset in force before the first transition and the list of
  transitions (UTC instant in seconds, UTC offset in seconds from then on), in ascending
  order. The two lookups follow \<open>zoneinfo\<close>: \<open>fromutc\<close> searches the transition instants,
  \<open>utcoffset\<close> of a wall-clock time with \<open>fold = 0\<close> searches the transitions shifted by the
  larger of the offsets before and after each one, so that a wall time inside a gap or
  an overlap gets the offset in force before the transition.
\<close>

datatype zone = Zone (tti_before: int) (trans: "(int \<times> int) list")

fun find_trans_utc :: "int \<Rightarrow> (int \<times> int) list \<Rightarrow> int \<Rightarrow> int" where
  "find_trans_utc cur [] ts = cur"
| "find_trans_utc cur ((t, off) # rest) ts =
     (if ts < t then cur else find_trans_utc off rest ts)"

fun find_trans_wall :: "int \<Rightarrow> (int \<times> int) list \<Rightarrow> int \<Rightarrow> int" where
  "find_trans_wall cur [] ts = cur"
| "find_trans_wall cur ((t, off) # rest) ts =
     (if ts < t + max cur off then cur else find_trans_wall off rest ts)"

definition fromutc_offset :: "zone \<Rightarrow> instant \<Rightarrow> int" where
  "fromutc_offset z t = find_trans_utc (tti_before z) (trans z) (t div SEC)"

definition utcoffset :: "zone \<Rightarrow> int \<Rightarrow> int" where
  "utcoffset z wall = find_trans_wall (tti_before z) (trans z) (wall div SEC)"

definition UTC :: zone where
  "UTC = Zone 0 []"

definition offsets :: "zone \<Rightarrow> int list" where
  "offsets z = tti_before z # map snd (trans z)"

text \<open>\<open>t.astimezone(zone).date()\<close> for an aware \<open>t\<close>.\<close>

definition local_date :: "zone \<Rightarrow> instant \<Rightarrow> date" where
  "local_date z t = (t + fromutc_offset z t * SEC) div DAY"

text \<open>
  \<open>datetime.combine(d, datetime.min.time(), tzinfo=zone).astimezone(timezone.utc)\<close>: the
  wall time is midnight of \<open>d\<close>, and the offset subtracted is the zone's offset at that
  wall time.
\<close>

definition start_of_day_utc :: "zone \<Rightarrow> date \<Rightarrow> instant" where
  "start_of_day_utc z d = d * DAY - utcoffset z (d * DAY) * SEC"

section \<open>Collaborators and the state of a run\<close>

datatype exn =
    TypeError | ValueError | ZoneInfoNotFoundError | UnknownTimeZoneError
  | RuntimeError | DatabaseError | TwilioError

datatype level = INFO | WARNING | ERROR

type_synonym log_entry = "level \<times> string"

text \<open>
  A \<open>datetime\<close> value as \<open>_classify_days\<close> sees it: naive (a wall-clock reading with no
  \<open>tzinfo\<close>) or aware (an instant; the zone it is displayed in does not matter to
  \<open>astimezone\<close>).
\<close>

datatype pydatetime = Naive int | Aware instant

text \<open>
  What a run reads and cannot change: the installed time-zone data (zone names with
  their tables), the zone the process runs in, the readings of the system clock (the
  n-th reading is the instant \<open>clock n\<close>), the rows of the
  \<open>User\<close> table (id, time_zone, phone_number; the last two may be NULL), the rows of
  \<open>Log JOIN Habit\<close> (user_id, created_at), and which storage and delivery calls fail.
\<close>

record env =
  tzdata :: "(string \<times> zone) list"
  local_zone :: zone
  clock :: "nat \<Rightarrow> instant"
  db_reachable :: bool
  user_rows :: "(int \<times> string option \<times> string option) list"
  users_query_fails :: bool
  log_rows :: "(int \<times> int) list"
  logs_query_fails :: "int \<Rightarrow> bool"
  sms_fails :: "string \<Rightarrow> bool"

text \<open>
  What a run changes: the number of clock readings made, the module globals \<open>db._pool\<close>
  and \<open>notifier._client\<close> (set or not), the records written to the logger (level and
  message; the \<open>extra\<close> fields are left out and a formatted message is recorded as its
  template), and the messages handed to the SMS provider.
\<close>

record world =
  ticks :: nat
  pool :: bool
  client :: bool
  logged :: "log_entry list"
  sent :: "(string \<times> string \<times> string) list"

definition datetime_now :: "env \<Rightarrow> world \<Rightarrow> instant \<times> world" where
  "datetime_now e w = (clock e (ticks w), w\<lparr>ticks := Suc (ticks w)\<rparr>)"

text \<open>\<open>datetime.now()\<close> with no zone: the wall-clock reading in the zone of the process.\<close>

definition datetime_now_local :: "env \<Rightarrow> world \<Rightarrow> int \<times> world" where
  "datetime_now_local e w =
     (let (t, w') = datetime_now e w in (t + fromutc_offset (local_zone e) t * SEC, w'))"

definition log_msg :: "level \<Rightarrow> string \<Rightarrow> world \<Rightarrow> world" where
  "log_msg l ev w = w\<lparr>logged := logged w @ [(l, ev)]\<rparr>"

text \<open>
  \<open>ZoneInfo(key)\<close>: a key that is not a string (the NULL of the column) or is empty is
  refused before the data is searched; a key the data does not have raises
  \<open>ZoneInfoNotFoundError\<close>.
\<close>

definition ZoneInfo :: "env \<Rightarrow> string option \<Rightarrow> exn + zone" where
  "ZoneInfo e key =
     (case key of
        None \<Rightarrow> Inl TypeError
      | Some k \<Rightarrow>
          if k = [] then Inl ValueError
          else (case map_of (tzdata e) k of
                  None \<Rightarrow> Inl ZoneInfoNotFoundError
                | Some z \<Rightarrow> Inr z))"

section \<open>app/db.py\<close>

definition init_pool :: "env \<Rightarrow> world \<Rightarrow> (exn + unit) \<times> world" where
  "init_pool e w =
     (if pool w then (Inr (), w)
      else if \<not> db_reachable e then (Inl DatabaseError, w)
      else (Inr (), w\<lparr>pool := True\<rparr>))"

definition fetch_users_with_phones ::
  "env \<Rightarrow> world \<Rightarrow> exn + (int \<times> string option \<times> string) list" where
  "fetch_users_with_phones e w =
     (if \<not> pool w then Inl RuntimeError
      else if users_query_fails e then Inl DatabaseError
      else Inr (concat (map (\<lambda>(user_id, time_zone, phone_number).
             (case phone_number of
                None \<Rightarrow> []
              | Some p \<Rightarrow> if p \<noteq> [] then [(user_id, time_zone, p)] else []))
             (user_rows e))))"

definition fetch_user_logs_between ::
  "env \<Rightarrow> world \<Rightarrow> int \<Rightarrow> instant \<Rightarrow> instant \<Rightarrow> exn + pydatetime list" where
  "fetch_user_logs_between e w user_id start_utc end_utc =
     (if \<not> pool w then Inl RuntimeError
      else if logs_query_fails e user_id then Inl DatabaseError
      else Inr (map (\<lambda>(u, created_at). Naive created_at)
             (filter (\<lambda>(u, created_at).
                u = user_id \<and> created_at \<ge> start_utc \<and> created_at < end_utc)
              (log_rows e))))"

section \<open>app/notifier.py\<close>

definition init_client :: "world \<Rightarrow> world" where
  "init_client w = (if client w then w else w\<lparr>client := True\<rparr>)"

definition send_sms ::
  "env \<Rightarrow> string \<Rightarrow> string \<Rightarrow> string \<Rightarrow> world \<Rightarrow> (exn + unit) \<times> world" where
  "send_sms e from_number to_number body w =
     (if \<not> client w then (Inl RuntimeError, w)
      else if sms_fails e to_number then (Inl TwilioError, log_msg ERROR ''sms_error'' w)
      else (Inr (),
            log_msg INFO ''sms_sent'' (w\<lparr>sent := sent w @ [(from_number, to_number, body)]\<rparr>)))"

section \<open>app/logic.py\<close>

text \<open>
  The \<open>try: ZoneInfo(tz_name) / except Exception: warn; ZoneInfo("UTC")\<close> block that opens
  both \<open>_compute_window\<close> and \<open>_classify_days\<close>. The lookup of \<open>"UTC"\<close> in the handler is
  not guarded, so its failure leaves the function.
\<close>

definition zone_or_utc :: "env \<Rightarrow> string option \<Rightarrow> world \<Rightarrow> (exn + zone) \<times> world" where
  "zone_or_utc e tz_name w =
     (case ZoneInfo e tz_name of
        Inr zone \<Rightarrow> (Inr zone, w)
      | Inl _ \<Rightarrow> (ZoneInfo e (Some ''UTC''), log_msg WARNING ''invalid_timezone'' w))"

text \<open>Lines 18 to 28 of \<open>_compute_window\<close>, once the zone is resolved.\<close>

definition window_in :: "zone \<Rightarrow> instant \<Rightarrow> instant \<times> instant \<times> instant \<times> date" where
  "window_in zone now_utc =
     (let local_today = local_date zone now_utc;
          local_yesterday = local_today - 1;
          local_day_before = local_today - 2;
          start_utc_day_before = start_of_day_utc zone local_day_before;
          start_utc_today = start_of_day_utc zone local_today;
          start_utc_yesterday = start_of_day_utc zone local_yesterday
      in (start_utc_day_before, start_utc_yesterday, start_utc_today, local_yesterday))"

definition compute_window ::
  "env \<Rightarrow> string option \<Rightarrow> world \<Rightarrow> (exn + instant \<times> instant \<times> instant \<times> date) \<times> world" where
  "compute_window e tz_name w =
     (let (now_utc, w1) = datetime_now e w;
          (r, w2) = zone_or_utc e tz_name w1
      in case r of
           Inl x \<Rightarrow> (Inl x, w2)
         | Inr zone \<Rightarrow> (Inr (window_in zone now_utc), w2))"

fun as_utc :: "pydatetime \<Rightarrow> instant" where
  "as_utc (Naive wall) = wall"
| "as_utc (Aware t) = t"

fun classify_loop :: "zone \<Rightarrow> pydatetime list \<Rightarrow> date set \<Rightarrow> date set" where
  "classify_loop z [] days = days"
| "classify_loop z (dt # rest) days =
     classify_loop z rest (insert (local_date z (as_utc dt)) days)"

definition classify_days ::
  "env \<Rightarrow> string option \<Rightarrow> pydatetime list \<Rightarrow> world \<Rightarrow> (exn + date set) \<times> world" where
  "classify_days e tz_name created_list w =
     (let (r, w1) = zone_or_utc e tz_name w
      in case r of
           Inl x \<Rightarrow> (Inl x, w1)
         | Inr z \<Rightarrow> (Inr (classify_loop z created_list {}), w1))"

text \<open>Lines 59 to 66 of \<open>run_job\<close>: the pair \<open>(should_notify, reason)\<close>.\<close>

definition decide :: "bool \<Rightarrow> bool \<Rightarrow> bool \<times> string" where
  "decide has_day_before has_yesterday =
     (if \<not> has_day_before \<and> \<not> has_yesterday then (True, ''no_logs_two_days'')
      else if has_day_before \<and> \<not> has_yesterday then (True, ''missed_yesterday'')
      else (False, []))"

definition reminder_body :: string where
  "reminder_body = ''Reminder: no recent habit logs. Open the app to log your progress.''"

text \<open>
  The body of the \<open>try\<close> in \<open>run_job\<close> for one user: \<open>Inr True\<close> when the user was
  notified, \<open>Inr False\<close> when skipped, \<open>Inl\<close> the exception that left the body.
\<close>

definition try_user ::
  "env \<Rightarrow> string \<Rightarrow> int \<times> string option \<times> string \<Rightarrow> world \<Rightarrow> (exn + bool) \<times> world" where
  "try_user e twilio_from u w =
     (let (user_id, tz_name, phone) = u;
          (r1, w1) = compute_window e tz_name w
      in case r1 of
           Inl x \<Rightarrow> (Inl x, w1)
         | Inr (s1, s2, s3, local_yesterday) \<Rightarrow>
            (case fetch_user_logs_between e w1 user_id s1 s3 of
               Inl x \<Rightarrow> (Inl x, w1)
             | Inr logs \<Rightarrow>
                (let (r2, w2) = classify_days e tz_name logs w1
                 in case r2 of
                      Inl x \<Rightarrow> (Inl x, w2)
                    | Inr days \<Rightarrow>
                       (let day_before = local_yesterday - 1;
                            has_day_before = day_before \<in> days;
                            has_yesterday = local_yesterday \<in> days;
                            (should_notify, reason) = decide has_day_before has_yesterday
                        in if should_notify then
                             (case send_sms e twilio_from phone reminder_body w2 of
                                (Inl x, w3) \<Rightarrow> (Inl x, w3)
                              | (Inr _, w3) \<Rightarrow> (Inr True, log_msg INFO ''notified'' w3))
                           else (Inr False, w2)))))"

type_synonym counters = "int \<times> int \<times> int"

text \<open>One iteration of the \<open>for\<close> loop: the \<open>try\<close> body and its \<open>except Exception\<close> handler.\<close>

definition run_user ::
  "env \<Rightarrow> string \<Rightarrow> int \<times> string option \<times> string \<Rightarrow> counters \<Rightarrow> world \<Rightarrow> counters \<times> world" where
  "run_user e twilio_from u c w =
     (let (notified, skipped, errors) = c
      in case try_user e twilio_from u w of
           (Inr True, w') \<Rightarrow> ((notified + 1, skipped, errors), w')
         | (Inr False, w') \<Rightarrow> ((notified, skipped + 1, errors), w')
         | (Inl x, w') \<Rightarrow> ((notified, skipped, errors + 1), log_msg ERROR ''user_error'' w'))"

fun job_loop ::
  "env \<Rightarrow> string \<Rightarrow> (int \<times> string option \<times> string) list \<Rightarrow> counters \<Rightarrow> world \<Rightarrow> counters \<times> world" where
  "job_loop e twilio_from [] c w = (c, w)"
| "job_loop e twilio_from (u # us) c w =
     (let (c', w') = run_user e twilio_from u c w in job_loop e twilio_from us c' w')"

definition run_job :: "env \<Rightarrow> string \<Rightarrow> world \<Rightarrow> (exn + counters) \<times> world" where
  "run_job e twilio_from w =
     (case fetch_users_with_phones e w of
        Inl x \<Rightarrow> (Inl x, w)
      | Inr users \<Rightarrow>
          (let (c, w') = job_loop e twilio_from users (0, 0, 0) w in (Inr c, w')))"

section \<open>app/config.py and app/main.py\<close>

record config =
  log_level :: string
  mysql_host :: string
  mysql_port :: int
  mysql_db :: string
  mysql_user :: string
  mysql_password :: string
  mysql_ssl_disabled :: bool
  mysql_ssl_ca_path :: string
  twilio_account_sid :: string
  twilio_auth_token :: string
  twilio_from :: string

definition missing :: "config \<Rightarrow> string list" where
  "missing cfg =
     (if mysql_host cfg = [] then [''MYSQL_HOST''] else []) @
     (if mysql_db cfg = [] then [''MYSQL_DB''] else []) @
     (if mysql_user cfg = [] then [''MYSQL_USER''] else []) @
     (if mysql_password cfg = [] then [''MYSQL_PASSWORD''] else []) @
     (if twilio_account_sid cfg = [] then [''TWILIO_ACCOUNT_SID''] else []) @
     (if twilio_auth_token cfg = [] then [''TWILIO_AUTH_TOKEN''] else []) @
     (if twilio_from cfg = [] then [''TWILIO_FROM''] else [])"

definition validate :: "config \<Rightarrow> exn + unit" where
  "validate cfg = (if missing cfg \<noteq> [] then Inl ValueError else Inr ())"

text \<open>
  \<open>main\<close> returns the exit status it hands to \<open>sys.exit\<close>; an exception that leaves it
  (configuration, pool creation, the query for the users) ends the process before any
  status is returned. The health server is left out.
\<close>

definition main :: "config \<Rightarrow> env \<Rightarrow> world \<Rightarrow> (exn + int) \<times> world" where
  "main cfg e w =
     (case validate cfg of
        Inl x \<Rightarrow> (Inl x, w)
      | Inr _ \<Rightarrow>
         (case init_pool e w of
            (Inl x, w1) \<Rightarrow> (Inl x, w1)
          | (Inr _, w1) \<Rightarrow>
             (case run_job e (twilio_from cfg) (init_client w1) of
                (Inl x, w2) \<Rightarrow> (Inl x, w2)
              | (Inr (notified, skipped, errors), w2) \<Rightarrow>
                  (Inr (if errors = 0 then 0 else 1), log_msg INFO ''run_complete'' w2))))"

text \<open>\<open>sys.exit(main())\<close>: the status returned, or 1 after an uncaught exception.\<close>

definition exit_status :: "exn + int \<Rightarrow> int" where
  "exit_status r = (case r of Inl _ \<Rightarrow> 1 | Inr status \<Rightarrow> status)"

section \<open>app/habit_notifier.py\<close>

text \<open>
  \<open>pytz.timezone(zone)\<close>, read from the same zone tables: any spelling of \<open>UTC\<close> is the
  constant \<open>pytz.utc\<close>; a name with a character outside ASCII is unknown; the escapes
  \<open>_plus_\<close> and \<open>_minus_\<close> of old names are undone; the name is then matched against the
  names of the data without regard to case, and \<open>UnknownTimeZoneError\<close> is raised for a
  name the data does not have.
\<close>

definition upper_char :: "char \<Rightarrow> char" where
  "upper_char c =
     (let n = of_char c :: nat in if 97 \<le> n \<and> n \<le> 122 then char_of (n - 32) else c)"

definition lower_char :: "char \<Rightarrow> char" where
  "lower_char c =
     (let n = of_char c :: nat in if 65 \<le> n \<and> n \<le> 90 then char_of (n + 32) else c)"

function replace_str :: "string \<Rightarrow> string \<Rightarrow> string \<Rightarrow> string" where
  "replace_str old new s =
     (if old = [] then new @ concat (map (\<lambda>c. c # new) s)
      else if s = [] then []
      else if take (length old) s = old then new @ replace_str old new (drop (length old) s)
      else hd s # replace_str old new (tl s))"
  by pat_completeness auto
termination
  by (relation "measure (\<lambda>(old, new, s). length s)") auto

definition unmunge_zone :: "string \<Rightarrow> string" where
  "unmunge_zone zone = replace_str ''_minus_'' ''-'' (replace_str ''_plus_'' ''+'' zone)"

definition case_insensitive_zone_lookup :: "env \<Rightarrow> string \<Rightarrow> string" where
  "case_insensitive_zone_lookup e zone =
     (case map_of (map (\<lambda>(name, z). (map lower_char name, name)) (rev (tzdata e)))
             (map lower_char zone) of
        None \<Rightarrow> zone
      | Some name \<Rightarrow> if name \<noteq> [] then name else zone)"

definition pytz_timezone :: "env \<Rightarrow> string \<Rightarrow> exn + zone" where
  "pytz_timezone e zone =
     (if map upper_char zone = ''UTC'' then Inr UTC
      else if list_ex (\<lambda>c. (of_char c :: nat) \<ge> 128) zone then Inl UnknownTimeZoneError
      else (case map_of (tzdata e) (case_insensitive_zone_lookup e (unmunge_zone zone)) of
              None \<Rightarrow> Inl UnknownTimeZoneError
            | Some z \<Rightarrow> Inr z))"

text \<open>Line 118: \<open>pytz.timezone(user['time_zone']) if user.get('time_zone') else pytz.UTC\<close>.\<close>

definition hn_user_tz :: "env \<Rightarrow> string option \<Rightarrow> exn + zone" where
  "hn_user_tz e time_zone =
     (case time_zone of
        None \<Rightarrow> Inr UTC
      | Some name \<Rightarrow> if name \<noteq> [] then pytz_timezone e name else Inr UTC)"

text \<open>
  Lines 121 to 131 and 156 to 157. \<open>datetime.now(user_tz)\<close> carries the pytz \<open>tzinfo\<close> of the
  offset in force at that instant; \<open>replace\<close> and the subtraction of a \<open>timedelta\<close> keep that
  \<open>tzinfo\<close>, and \<open>astimezone(pytz.UTC)\<close> subtracts its offset.
\<close>

definition hn_boundaries ::
  "zone \<Rightarrow> instant \<Rightarrow> instant \<times> instant \<times> instant \<times> date \<times> date" where
  "hn_boundaries user_tz now_utc =
     (let off = fromutc_offset user_tz now_utc * SEC;
          now = now_utc + off;
          today_start = (now div DAY) * DAY;
          yesterday_start = today_start - DAY;
          two_days_ago_start = today_start - 2 * DAY;
          today_start_utc = today_start - off;
          yesterday_start_utc = yesterday_start - off;
          two_days_ago_start_utc = two_days_ago_start - off;
          yesterday_date = yesterday_start div DAY;
          two_days_ago_date = two_days_ago_start div DAY
      in (two_days_ago_start_utc, yesterday_start_utc, today_start_utc,
          yesterday_date, two_days_ago_date))"

text \<open>
  The query of lines 134 to 149: the rows its \<open>WHERE\<close> keeps, and the \<open>log_date\<close> values of
  the groups (\<open>CONVERT_TZ\<close> taken to use the same zone tables).
\<close>

definition hn_matched_logs :: "env \<Rightarrow> int \<Rightarrow> instant \<Rightarrow> int list" where
  "hn_matched_logs e user_id two_days_ago_start_utc =
     map snd (filter (\<lambda>(u, created_at). u = user_id \<and> created_at \<ge> two_days_ago_start_utc)
       (log_rows e))"

definition hn_logged_dates :: "env \<Rightarrow> zone \<Rightarrow> int \<Rightarrow> instant \<Rightarrow> date set" where
  "hn_logged_dates e user_tz user_id two_days_ago_start_utc =
     set (map (local_date user_tz) (hn_matched_logs e user_id two_days_ago_start_utc))"

text \<open>Lines 163 to 171.\<close>

definition hn_decide :: "bool \<Rightarrow> bool \<Rightarrow> bool \<times> string" where
  "hn_decide has_yesterday_log has_two_days_ago_log =
     (if \<not> has_yesterday_log \<and> \<not> has_two_days_ago_log then
        (True, ''No logs in the past 2 days'')
      else if has_two_days_ago_log \<and> \<not> has_yesterday_log then
        (True, ''Logged 2 days ago but not yesterday'')
      else (False, []))"

text \<open>The body of the loop over the users; no handler surrounds it inside the loop.\<close>

definition hn_user ::
  "env \<Rightarrow> int \<times> string option \<times> string \<Rightarrow> world \<Rightarrow> (exn + bool \<times> string) \<times> world" where
  "hn_user e u w =
     (let (user_id, time_zone, phone_number) = u
      in case hn_user_tz e time_zone of
           Inl x \<Rightarrow> (Inl x, w)
         | Inr user_tz \<Rightarrow>
            (let (now_utc, w1) = datetime_now e w;
                 (two_days_ago_start_utc, yesterday_start_utc, today_start_utc,
                    yesterday_date, two_days_ago_date) = hn_boundaries user_tz now_utc
             in if logs_query_fails e user_id then (Inl DatabaseError, w1)
                else
                 (let logged_dates = hn_logged_dates e user_tz user_id two_days_ago_start_utc;
                      has_yesterday_log = yesterday_date \<in> logged_dates;
                      has_two_days_ago_log = two_days_ago_date \<in> logged_dates
                  in (Inr (hn_decide has_yesterday_log has_two_days_ago_log), w1))))"

fun hn_loop ::
  "env \<Rightarrow> (int \<times> string option \<times> string) list \<Rightarrow> (int \<times> string \<times> string) list \<Rightarrow> world
     \<Rightarrow> (exn + (int \<times> string \<times> string) list) \<times> world" where
  "hn_loop e [] users_to_notify w = (Inr users_to_notify, w)"
| "hn_loop e (u # us) users_to_notify w =
     (case hn_user e u w of
        (Inl x, w') \<Rightarrow> (Inl x, w')
      | (Inr (should_notify, reason), w') \<Rightarrow>
          (if should_notify then
             hn_loop e us (users_to_notify @ [(fst u, snd (snd u), reason)])
               (log_msg INFO ''User {name} (ID: {user_id}) needs notification: {reason}'' w')
           else hn_loop e us users_to_notify w'))"

text \<open>
  \<open>get_users_needing_notification\<close>: the outer handler logs the exception and raises it
  again, so the first failing user ends the call.
\<close>

definition get_users_needing_notification ::
  "env \<Rightarrow> world \<Rightarrow> (exn + (int \<times> string \<times> string) list) \<times> world" where
  "get_users_needing_notification e w =
     (case (if users_query_fails e then (Inl DatabaseError, w)
            else hn_loop e
                   (concat (map (\<lambda>(user_id, time_zone, phone_number).
                      (case phone_number of
                         None \<Rightarrow> []
                       | Some p \<Rightarrow> if p \<noteq> [] then [(user_id, time_zone, p)] else []))
                      (user_rows e))) []
                   (log_msg INFO ''Found {len(users)} users with phone numbers'' w)) of
        (Inl x, w') \<Rightarrow> (Inl x, log_msg ERROR ''Error querying database: {e}'' w')
      | (Inr users_to_notify, w') \<Rightarrow>
          (Inr users_to_notify,
           log_msg INFO ''Total users needing notification: {len(users_to_notify)}'' w'))"

section \<open>habit-tracker-cronjob/main.py\<close>

text \<open>
  The \<open>HAVING\<close> clause of \<open>get_users_to_notify\<close> for one user, whose logs are \<open>created\<close>: the
  join keeps the logs from \<open>two_days_ago\<close> on, and both bounds are passed with the
  microseconds cut off by \<open>strftime\<close>. The bounds come from \<open>datetime.now()\<close>, the wall
  clock of the process, and are compared with \<open>created_at\<close> as they are.
\<close>

definition strftime_seconds :: "instant \<Rightarrow> instant" where
  "strftime_seconds t = (t div SEC) * SEC"

definition legacy_having :: "instant \<Rightarrow> instant \<Rightarrow> int list \<Rightarrow> bool" where
  "legacy_having two_days_ago yesterday created =
     (let joined = filter (\<lambda>created_at. created_at \<ge> strftime_seconds two_days_ago) created
      in length joined = 0 \<or>
         (length joined = 1 \<and> Max (set joined) < strftime_seconds yesterday))"

definition get_users_to_notify :: "env \<Rightarrow> world \<Rightarrow> (exn + int list) \<times> world" where
  "get_users_to_notify e w =
     (if \<not> db_reachable e then
        (Inl DatabaseError, log_msg ERROR ''Error connecting to database: {err}'' w)
      else
       (let (now1, w1) = datetime_now_local e w;
            two_days_ago = now1 - 2 * DAY;
            (now2, w2) = datetime_now_local e w1;
            yesterday = now2 - DAY
        in if users_query_fails e then
             (Inr [], log_msg ERROR ''Error executing database query: {err}'' w2)
           else
             (Inr (map fst (filter (\<lambda>(user_id, time_zone, phone_number).
                     legacy_having two_days_ago yesterday
                       (map snd (filter (\<lambda>(u, created_at). u = user_id) (log_rows e))))
                   (user_rows e))), w2)))"

section \<open>The decision table of the specification\<close>

datatype reason = no_logs_two_days | missed_yesterday

datatype verdict = NOTIFY reason | SKIP

text \<open>
  Section 4.3 of the specification, in its words: rule 1, else rule 2, else skip.
\<close>

definition spec_evaluate :: "date set \<Rightarrow> date \<Rightarrow> date \<Rightarrow> verdict" where
  "spec_evaluate activity localDayBefore localYesterday =
     (if localDayBefore \<notin> activity \<and> localYesterday \<notin> activity then NOTIFY no_logs_two_days
      else if localDayBefore \<in> activity \<and> localYesterday \<notin> activity then NOTIFY missed_yesterday
      else SKIP)"

text \<open>
  The verdict a pair \<open>(should_notify, reason)\<close> of either implementation stands for;
  \<open>None\<close> for a pair that is no verdict (a notification with another reason text).
\<close>

definition verdict_of :: "bool \<times> string \<Rightarrow> verdict option" where
  "verdict_of p =
     (if \<not> fst p then Some SKIP
      else if snd p = ''no_logs_two_days'' \<or> snd p = ''No logs in the past 2 days'' then
        Some (NOTIFY no_logs_two_days)
      else if snd p = ''missed_yesterday'' \<or> snd p = ''Logged 2 days ago but not yesterday'' then
        Some (NOTIFY missed_yesterday)
      else None)"

text \<open>
  The invariant the specification states for an eligibility window, and a condition on a
  zone table under which it holds at every instant: no offset of the table is 24 hours
  or more above an offset that precedes it.
\<close>

definition window_ordered :: "instant \<times> instant \<times> instant \<times> date \<Rightarrow> bool" where
  "window_ordered win = (case win of (s1, s2, s3, d) \<Rightarrow> s1 < s2 \<and> s2 < s3)"

fun no_later_day_jump :: "int list \<Rightarrow> bool" where
  "no_later_day_jump [] = True"
| "no_later_day_jump (a # rest) =
     (list_all (\<lambda>b. b - a < 86400) rest \<and> no_later_day_jump rest)"

section \<open>Sample data\<close>

text \<open>
  \<open>America/New_York\<close> around 2024 (EST, EDT from 2024-03-10T07:00Z, EST from
  2024-11-03T06:00Z) and \<open>Pacific/Apia\<close> around the end of 2011 (UTC-10 until
  2011-12-30T10:00Z, UTC+14 after it: the zone skipped 30 December 2011).
\<close>

definition New_York :: zone where
  "New_York = Zone (-18000) [(1710054000, -14400), (1730613600, -18000)]"

definition Apia :: zone where
  "Apia = Zone (-36000) [(1325239200, 50400)]"

definition sample_tzdata :: "(string \<times> zone) list" where
  "sample_tzdata =
     [(''UTC'', UTC), (''America/New_York'', New_York), (''Pacific/Apia'', Apia)]"

definition world0 :: world where
  "world0 = \<lparr>ticks = 0, pool = True, client = True, logged = [], sent = []\<rparr>"

text \<open>
  A population of seven rows at 2024-03-11T16:00Z (each reading of the clock one
  microsecond after the last): five users with a phone number, of whom user 3 has a
  failing logs query, user 4 an unknown zone name and user 5 no zone at all, and two
  rows without a usable phone number. Users 1 and 4 each have a log made today, after
  the window has ended. In \<open>habit_notifier.py\<close> the \<open>name\<close> column of a user is left out.
\<close>

definition five_users :: env where
  "five_users = \<lparr>
     tzdata = sample_tzdata,
     local_zone = UTC,
     clock = (\<lambda>n. 1710172800 * SEC + int n),
     db_reachable = True,
     user_rows =
       [(1, Some ''UTC'', Some ''+15550001''),
        (2, Some ''America/New_York'', Some ''+15550002''),
        (3, Some ''UTC'', Some ''+15550003''),
        (4, Some ''Mars/Phobos'', Some ''+15550004''),
        (5, None, Some ''+15550005''),
        (6, Some ''UTC'', None),
        (7, Some ''UTC'', Some [])],
     users_query_fails = False,
     log_rows =
       [(1, 1710072000 * SEC), (2, 1709992800 * SEC), (3, 1710072000 * SEC),
        (5, 1709992800 * SEC), (5, 1710072000 * SEC), (4, 1710160000 * SEC),
        (1, 1710160000 * SEC)],
     logs_query_fails = (\<lambda>user_id. user_id = 3),
     sms_fails = (\<lambda>to_number. False)\<rparr>"

definition sample_config :: config where
  "sample_config = \<lparr>
     log_level = ''INFO'', mysql_host = ''db'', mysql_port = 3306, mysql_db = ''habits'',
     mysql_user = ''app'', mysql_password = ''secret'', mysql_ssl_disabled = False,
     mysql_ssl_ca_path = [], twilio_account_sid = ''AC0'', twilio_auth_token = ''token'',
     twilio_from = ''+15550000''\<rparr>"

definition cold_world :: world where
  "cold_world = \<lparr>ticks = 0, pool = False, client = False, logged = [], sent = []\<rparr>"

text \<open>The same population with the clock standing at 2011-12-30T12:00Z.\<close>

definition apia_env :: env where
  "apia_env = five_users\<lparr>clock := (\<lambda>n. 1325246400 * SEC)\<rparr>"

text \<open>
  One user in UTC at 2024-03-11T16:00Z with two logs on 9 March (17:00Z and 18:00Z), both
  inside the last 48 hours, and none on 10 March.
\<close>

definition legacy_env :: env where
  "legacy_env = \<lparr>
     tzdata = sample_tzdata,
     local_zone = UTC,
     clock = (\<lambda>n. 1710172800 * SEC + int n),
     db_reachable = True,
     user_rows = [(1, Some ''UTC'', Some ''+15550001'')],
     users_query_fails = False,
     log_rows = [(1, 1710003600 * SEC), (1, 1710007200 * SEC)],
     logs_query_fails = (\<lambda>user_id. False),
     sms_fails = (\<lambda>to_number. False)\<rparr>"

text \<open>The population of seven rows with no failing logs query.\<close>

definition unknown_zone_env :: env where
  "unknown_zone_env = five_users\<lparr>logs_query_fails := (\<lambda>user_id. False)\<rparr>"

text \<open>
  One user in \<open>America/New_York\<close> at 2024-11-04T17:00Z, the day after the clocks went
  back, whose only log is at 2024-11-02T04:30Z, half an hour after local midnight of
  2 November.
\<close>

definition november_env :: env where
  "november_env = \<lparr>
     tzdata = sample_tzdata,
     local_zone = UTC,
     clock = (\<lambda>n. 1730739600 * SEC + int n),
     db_reachable = True,
     user_rows = [(1, Some ''America/New_York'', Some ''+15550001'')],
     users_query_fails = False,
     log_rows = [(1, 1730521800 * SEC)],
     logs_query_fails = (\<lambda>user_id. False),
     sms_fails = (\<lambda>to_number. False)\<rparr>"

section \<open>The loop of \<open>run_job\<close>\<close>

lemma run_user_cases:
  "run_user e f u (n, s, x) w =
     (case try_user e f u w of
        (Inr True, w') \<Rightarrow> ((n + 1, s, x), w')
      | (Inr False, w') \<Rightarrow> ((n, s + 1, x), w')
      | (Inl y, w') \<Rightarrow> ((n, s, x + 1), log_msg ERROR ''user_error'' w'))"
  by (simp add: run_user_def)

lemma run_user_step:
  "\<exists>n' s' x' w'. run_user e f u (n, s, x) w = ((n', s', x'), w') \<and>
     ((n', s', x') = (n + 1, s, x) \<or> (n', s', x') = (n, s + 1, x) \<or>
      (n', s', x') = (n, s, x + 1))"
  by (cases "try_user e f u w") (auto simp: run_user_cases split: sum.splits bool.splits)

lemma job_loop_sum:
  "job_loop e f us (n, s, x) w = ((n', s', x'), w') \<Longrightarrow>
     n' + s' + x' = n + s + x + int (length us) \<and> n \<le> n' \<and> s \<le> s' \<and> x \<le> x'"
proof (induction us arbitrary: n s x w)
  case Nil
  then show ?case by simp
next
  case (Cons u us)
  obtain n1 s1 x1 w1 where step: "run_user e f u (n, s, x) w = ((n1, s1, x1), w1)"
    and one: "(n1, s1, x1) = (n + 1, s, x) \<or> (n1, s1, x1) = (n, s + 1, x) \<or>
              (n1, s1, x1) = (n, s, x + 1)"
    using run_user_step[of e f u n s x w] by blast
  from Cons.prems step have "job_loop e f us (n1, s1, x1) w1 = ((n', s', x'), w')"
    by simp
  from Cons.IH[OF this] one show ?case by auto
qed

lemma job_loop_append:
  "job_loop e f (us @ vs) c w =
     (let (c', w') = job_loop e f us c w in job_loop e f vs c' w')"
  by (induction us arbitrary: c w) (auto split: prod.splits)

section \<open>The eligibility decision\<close>

text \<open>
  C1. For every activity set of local dates and every pair of dates (day before,
  yesterday), the pair \<open>(should_notify, reason)\<close> computed by \<open>run_job\<close> from the two
  membership tests, and the one computed by \<open>get_users_needing_notification\<close>, is the
  verdict of the specification's table: notify with \<open>no_logs_two_days\<close> when neither date
  is in the set, notify with \<open>missed_yesterday\<close> when the day before is in it and yesterday
  is not, skip otherwise.
\<close>

theorem decision_rule:
  "verdict_of (decide (localDayBefore \<in> activity) (localYesterday \<in> activity))
     = Some (spec_evaluate activity localDayBefore localYesterday)
   \<and> verdict_of (hn_decide (localYesterday \<in> activity) (localDayBefore \<in> activity))
     = Some (spec_evaluate activity localDayBefore localYesterday)"
  by (simp add: decide_def hn_decide_def verdict_of_def spec_evaluate_def)

section \<open>Counters and fault isolation\<close>

text \<open>
  C10. Whenever the query for the users returns a population, \<open>run_job\<close> returns three
  counters, none of them negative, whose sum is the number of users in the population.
\<close>

theorem counter_accounting:
  assumes "fetch_users_with_phones e w = Inr users"
  shows "\<exists>notified skipped errored w'.
           run_job e from_number w = (Inr (notified, skipped, errored), w') \<and>
           0 \<le> notified \<and> 0 \<le> skipped \<and> 0 \<le> errored \<and>
           notified + skipped + errored = int (length users)"
proof -
  obtain n s x w' where loop: "job_loop e from_number users (0, 0, 0) w = ((n, s, x), w')"
    by (metis prod_cases3 surj_pair)
  from job_loop_sum[OF loop] have "n + s + x = int (length users)" "0 \<le> n" "0 \<le> s" "0 \<le> x"
    by simp_all
  moreover from assms loop have "run_job e from_number w = (Inr (n, s, x), w')"
    by (simp add: run_job_def)
  ultimately show ?thesis by blast
qed

theorem counter_accounting_witness:
  "\<exists>users notified skipped errored w'.
     fetch_users_with_phones five_users world0 = Inr users \<and> length users = 5 \<and>
     run_job five_users ''+15550000'' world0 = (Inr (notified, skipped, errored), w') \<and>
     0 \<le> notified \<and> 0 \<le> skipped \<and> 0 \<le> errored \<and> notified + skipped + errored = 5"
proof -
  obtain users where h: "fetch_users_with_phones five_users world0 = Inr users"
    and len: "length users = 5"
    by (simp add: fetch_users_with_phones_def five_users_def world0_def)
  from counter_accounting[OF h, of "''+15550000''"] len h show ?thesis
    by auto
qed

text \<open>
  C3. If the \<open>try\<close> body raises for a user (in the window computation, the fetch of the
  logs, the classification or the delivery), that iteration adds one to \<open>errors\<close> and
  leaves \<open>notified\<close> and \<open>skipped\<close> as they were, and the loop goes on with the remaining
  users from exactly those counters: every remaining user is still counted once.
\<close>

theorem fault_isolation:
  assumes "job_loop e f before (0, 0, 0) w = ((n, s, x), w1)"
    and "fst (try_user e f u w1) = Inl err"
  shows "\<exists>w2. run_user e f u (n, s, x) w1 = ((n, s, x + 1), w2) \<and>
           job_loop e f (before @ u # rest) (0, 0, 0) w = job_loop e f rest (n, s, x + 1) w2 \<and>
           (\<exists>n' s' x' w3. job_loop e f rest (n, s, x + 1) w2 = ((n', s', x'), w3) \<and>
              n' + s' + x' = n + s + (x + 1) + int (length rest) \<and> x + 1 \<le> x')"
proof -
  obtain wt where t: "try_user e f u w1 = (Inl err, wt)"
    using assms(2) by (cases "try_user e f u w1") auto
  define w2 where "w2 = log_msg ERROR ''user_error'' wt"
  have step: "run_user e f u (n, s, x) w1 = ((n, s, x + 1), w2)"
    by (simp add: run_user_cases t w2_def)
  have cont: "job_loop e f (before @ u # rest) (0, 0, 0) w = job_loop e f rest (n, s, x + 1) w2"
    by (simp add: job_loop_append assms(1) step)
  obtain n' s' x' w3 where r: "job_loop e f rest (n, s, x + 1) w2 = ((n', s', x'), w3)"
    by (metis prod_cases3 surj_pair)
  from job_loop_sum[OF r] have "n' + s' + x' = n + s + (x + 1) + int (length rest)" "x + 1 \<le> x'"
    by simp_all
  with step cont r show ?thesis by blast
qed

theorem fault_isolation_witness:
  "fst (job_loop five_users ''+15550000''
          [(1, Some ''UTC'', ''+15550001''), (2, Some ''America/New_York'', ''+15550002'')]
          (0, 0, 0) world0) = (1, 1, 0) \<and>
   fst (try_user five_users ''+15550000'' (3, Some ''UTC'', ''+15550003'')
          (snd (job_loop five_users ''+15550000''
             [(1, Some ''UTC'', ''+15550001''), (2, Some ''America/New_York'', ''+15550002'')]
             (0, 0, 0) world0))) = Inl DatabaseError \<and>
   (\<exists>w2 w3. job_loop five_users ''+15550000''
          [(1, Some ''UTC'', ''+15550001''), (2, Some ''America/New_York'', ''+15550002''),
           (3, Some ''UTC'', ''+15550003''), (4, Some ''Mars/Phobos'', ''+15550004''),
           (5, None, ''+15550005'')] (0, 0, 0) world0 =
        job_loop five_users ''+15550000''
          [(4, Some ''Mars/Phobos'', ''+15550004''), (5, None, ''+15550005'')] (1, 1, 1) w2 \<and>
        job_loop five_users ''+15550000''
          [(4, Some ''Mars/Phobos'', ''+15550004''), (5, None, ''+15550005'')] (1, 1, 1) w2
          = ((2, 2, 1), w3)) \<and>
   fst (run_job five_users ''+15550000'' world0) = Inr (2, 2, 1)"
proof -
  let ?f = "''+15550000''"
  let ?before = "[(1, Some ''UTC'', ''+15550001''), (2, Some ''America/New_York'', ''+15550002'')]"
  let ?u = "(3::int, Some ''UTC'', ''+15550003'')"
  let ?rest = "[(4::int, Some ''Mars/Phobos'', ''+15550004''), (5, None, ''+15550005'')]"
  let ?w1 = "snd (job_loop five_users ?f ?before (0, 0, 0) world0)"
  have a: "fst (job_loop five_users ?f ?before (0, 0, 0) world0) = (1, 1, 0)"
    by code_simp
  then have h1: "job_loop five_users ?f ?before (0, 0, 0) world0 = ((1, 1, 0), ?w1)"
    by (metis prod.collapse)
  have h2: "fst (try_user five_users ?f ?u ?w1) = Inl DatabaseError"
    by code_simp
  have total: "fst (run_job five_users ?f world0) = Inr (2, 2, 1)"
    by code_simp
  have all: "fst (job_loop five_users ?f (?before @ ?u # ?rest) (0, 0, 0) world0) = (2, 2, 1)"
    by code_simp
  from fault_isolation[OF h1 h2, of ?rest] obtain w2 n' s' x' w3 where
    c: "job_loop five_users ?f (?before @ ?u # ?rest) (0, 0, 0) world0
          = job_loop five_users ?f ?rest (1, 1, 0 + 1) w2"
    and r: "job_loop five_users ?f ?rest (1, 1, 0 + 1) w2 = ((n', s', x'), w3)"
    by blast
  from all c r have "(n', s', x') = (2, 2, 1)" by simp
  with c r have "job_loop five_users ?f (?before @ ?u # ?rest) (0, 0, 0) world0
          = job_loop five_users ?f ?rest (1, 1, 1) w2 \<and>
        job_loop five_users ?f ?rest (1, 1, 1) w2 = ((2, 2, 1), w3)"
    by simp
  then have "\<exists>w2 w3. job_loop five_users ?f (?before @ ?u # ?rest) (0, 0, 0) world0
          = job_loop five_users ?f ?rest (1, 1, 1) w2 \<and>
        job_loop five_users ?f ?rest (1, 1, 1) w2 = ((2, 2, 1), w3)"
    by blast
  with a h2 total show ?thesis by simp
qed

section \<open>The exit status\<close>

text \<open>
  C9. Whenever \<open>main\<close> returns, the status it returns is 0 exactly when the \<open>errors\<close>
  counter of the run is 0 and is not 0 exactly when that counter is positive; it is a
  function of that counter alone.
\<close>

theorem exit_code_contract:
  assumes "main cfg e w = (Inr status, w')"
  shows "\<exists>notified skipped errored w2.
           run_job e (twilio_from cfg) (init_client (snd (init_pool e w)))
             = (Inr (notified, skipped, errored), w2) \<and>
           status = (if errored = 0 then 0 else 1) \<and>
           (status = 0) = (errored = 0) \<and> (status \<noteq> 0) = (errored > 0) \<and>
           exit_status (fst (main cfg e w)) = status"
proof -
  let ?w1 = "init_client (snd (init_pool e w))"
  from assms obtain n s x w2 where
    run: "run_job e (twilio_from cfg) ?w1 = (Inr (n, s, x), w2)"
    and st: "status = (if x = 0 then 0 else 1)"
    by (auto simp: main_def split: sum.splits prod.splits)
  from run obtain users where "job_loop e (twilio_from cfg) users (0, 0, 0) ?w1 = ((n, s, x), w2)"
    by (auto simp: run_job_def split: sum.splits prod.splits)
  from job_loop_sum[OF this] have "0 \<le> x" by simp
  have ex: "exit_status (fst (main cfg e w)) = status"
    using assms by (simp add: exit_status_def)
  from \<open>0 \<le> x\<close> st have "(status = 0) = (x = 0)" "(status \<noteq> 0) = (x > 0)"
    by auto
  with run st ex show ?thesis by blast
qed

theorem exit_code_contract_witness:
  "fst (main sample_config five_users cold_world) = Inr 1 \<and>
   (\<exists>notified skipped errored w2.
      run_job five_users ''+15550000'' (init_client (snd (init_pool five_users cold_world)))
        = (Inr (notified, skipped, errored), w2) \<and>
      errored > 0)"
proof -
  have m: "fst (main sample_config five_users cold_world) = Inr 1"
    by code_simp
  then have h: "main sample_config five_users cold_world
                 = (Inr 1, snd (main sample_config five_users cold_world))"
    by (metis prod.collapse)
  have tf: "twilio_from sample_config = ''+15550000''"
    by (simp add: sample_config_def)
  from exit_code_contract[OF h] obtain n s x w2 where
    r: "run_job five_users (twilio_from sample_config)
          (init_client (snd (init_pool five_users cold_world))) = (Inr (n, s, x), w2)"
    and p: "((1::int) \<noteq> 0) = (x > 0)"
    by blast
  from p have pos: "x > 0" by simp
  from r tf have "run_job five_users ''+15550000''
          (init_client (snd (init_pool five_users cold_world))) = (Inr (n, s, x), w2)"
    by simp
  with pos have "\<exists>notified skipped errored w2.
      run_job five_users ''+15550000'' (init_client (snd (init_pool five_users cold_world)))
        = (Inr (notified, skipped, errored), w2) \<and>
      errored > 0"
    by blast
  with m show ?thesis by simp
qed

section \<open>The window of \<open>_compute_window\<close>\<close>

lemma find_trans_wall_mem: "find_trans_wall cur trs ts \<in> set (cur # map snd trs)"
proof (induction trs arbitrary: cur)
  case Nil
  show ?case by simp
next
  case (Cons p trs)
  obtain t off where p: "p = (t, off)" by (cases p)
  from Cons.IH[of off] show ?case by (auto simp: p)
qed

text \<open>
  The offset found for a later wall time is the one found for an earlier wall time or one
  of a later row of the table.
\<close>

lemma find_trans_wall_later:
  assumes "no_later_day_jump (cur # map snd trs)" and "ts1 \<le> ts2"
  shows "find_trans_wall cur trs ts2 - find_trans_wall cur trs ts1 < 86400"
  using assms
proof (induction trs arbitrary: cur)
  case Nil
  then show ?case by simp
next
  case (Cons p trs)
  obtain t off where p: "p = (t, off)" by (cases p)
  from Cons.prems(1) have all: "list_all (\<lambda>b. b - cur < 86400) (off # map snd trs)"
    and rest: "no_later_day_jump (off # map snd trs)"
    by (simp_all add: p)
  show ?case
  proof (cases "ts2 < t + max cur off")
    case True
    with Cons.prems(2) show ?thesis by (simp add: p)
  next
    case False
    note late = this
    show ?thesis
    proof (cases "ts1 < t + max cur off")
      case True
      have "find_trans_wall off trs ts2 \<in> set (off # map snd trs)"
        by (rule find_trans_wall_mem)
      with all have "find_trans_wall off trs ts2 - cur < 86400"
        by (auto simp: list_all_iff)
      with True late show ?thesis by (simp add: p)
    next
      case False
      with late Cons.IH[OF rest Cons.prems(2)] show ?thesis by (simp add: p)
    qed
  qed
qed

lemma day_length:
  "start_of_day_utc z (d + 1) - start_of_day_utc z d
     = DAY - (utcoffset z ((d + 1) * DAY) - utcoffset z (d * DAY)) * SEC"
  by (simp add: start_of_day_utc_def algebra_simps)

lemma ordered_iff_offsets:
  "(start_of_day_utc z d < start_of_day_utc z (d + 1))
     = (utcoffset z ((d + 1) * DAY) - utcoffset z (d * DAY) < 86400)"
  using day_length[of z d] by auto

lemma ordered_iff_offsets_prev:
  "(start_of_day_utc z (d - 1) < start_of_day_utc z d)
     = (utcoffset z (d * DAY) - utcoffset z ((d - 1) * DAY) < 86400)"
  using ordered_iff_offsets[of z "d - 1"] by simp

lemma later_day_after:
  assumes "no_later_day_jump (offsets z)" and "d \<le> d'"
  shows "utcoffset z (d' * DAY) - utcoffset z (d * DAY) < 86400"
proof -
  from assms(2) have le: "(d * DAY) div SEC \<le> (d' * DAY) div SEC"
    by simp
  from assms(1) have nl: "no_later_day_jump (tti_before z # map snd (trans z))"
    by (simp add: offsets_def)
  from find_trans_wall_later[OF nl le] show ?thesis
    by (simp only: utcoffset_def)
qed

lemma zone_or_utc_fst: "fst (zone_or_utc e tz_name w) = fst (zone_or_utc e tz_name w')"
  by (simp add: zone_or_utc_def split: sum.splits)

text \<open>
  C2, as amended. Whenever \<open>_compute_window\<close> resolves a zone it returns the window of
  that zone at the instant read, and each of the two strict inequalities between
  consecutive boundaries holds exactly when the zone's offset at the later local
  midnight is less than 24 hours above its offset at the earlier one. In particular
  \<open>windowStart < yesterdayStart < todayStart\<close> at every instant for every zone in whose
  table no offset is 24 hours or more above an earlier one.
\<close>

theorem window_strictly_ordered:
  assumes "fst (zone_or_utc e tz_name w) = Inr z"
  shows "\<exists>s1 s2 s3 d w'. compute_window e tz_name w = (Inr (s1, s2, s3, d), w') \<and>
           (s1, s2, s3, d) = window_in z (clock e (ticks w)) \<and>
           (s1 < s2) = (utcoffset z (d * DAY) - utcoffset z ((d - 1) * DAY) < 86400) \<and>
           (s2 < s3) = (utcoffset z ((d + 1) * DAY) - utcoffset z (d * DAY) < 86400) \<and>
           (\<not> no_later_day_jump (offsets z) \<or> (s1 < s2 \<and> s2 < s3))"
proof -
  let ?now = "clock e (ticks w)"
  let ?w1 = "snd (datetime_now e w)"
  define d where "d = local_date z ?now - 1"
  from assms zone_or_utc_fst[of e tz_name ?w1 w]
  have "fst (zone_or_utc e tz_name ?w1) = Inr z" by simp
  then obtain w2 where "zone_or_utc e tz_name ?w1 = (Inr z, w2)"
    by (metis prod.collapse)
  then have cw: "compute_window e tz_name w = (Inr (window_in z ?now), w2)"
    by (simp add: compute_window_def datetime_now_def)
  have win: "window_in z ?now =
      (start_of_day_utc z (d - 1), start_of_day_utc z d, start_of_day_utc z (d + 1), d)"
    by (simp add: window_in_def Let_def d_def)
  have a: "(start_of_day_utc z (d - 1) < start_of_day_utc z d)
             = (utcoffset z (d * DAY) - utcoffset z ((d - 1) * DAY) < 86400)"
    by (rule ordered_iff_offsets_prev)
  have b: "(start_of_day_utc z d < start_of_day_utc z (d + 1))
             = (utcoffset z ((d + 1) * DAY) - utcoffset z (d * DAY) < 86400)"
    by (rule ordered_iff_offsets)
  have c: "\<not> no_later_day_jump (offsets z) \<or>
           (start_of_day_utc z (d - 1) < start_of_day_utc z d \<and>
            start_of_day_utc z d < start_of_day_utc z (d + 1))"
  proof (cases "no_later_day_jump (offsets z)")
    case True
    have "utcoffset z (d * DAY) - utcoffset z ((d - 1) * DAY) < 86400"
      by (rule later_day_after[OF True]) simp
    moreover have "utcoffset z ((d + 1) * DAY) - utcoffset z (d * DAY) < 86400"
      by (rule later_day_after[OF True]) simp
    ultimately show ?thesis using a b by simp
  next
    case False
    then show ?thesis by simp
  qed
  show ?thesis
    by (rule exI[of _ "start_of_day_utc z (d - 1)"], rule exI[of _ "start_of_day_utc z d"],
        rule exI[of _ "start_of_day_utc z (d + 1)"], rule exI[of _ d], rule exI[of _ w2])
       (use cw win a b c in simp)
qed

theorem window_strictly_ordered_witness:
  "fst (zone_or_utc five_users (Some ''Pacific/Apia'') world0) = Inr Apia \<and>
   \<not> no_later_day_jump (offsets Apia) \<and>
   utcoffset Apia (19793 * DAY) - utcoffset Apia ((19793 - 1) * DAY) = 0 \<and>
   utcoffset Apia ((19793 + 1) * DAY) - utcoffset Apia (19793 * DAY) = 0 \<and>
   (\<exists>s1 s2 s3 w'.
      compute_window five_users (Some ''Pacific/Apia'') world0 = (Inr (s1, s2, s3, 19793), w') \<and>
      s1 < s2 \<and> s2 < s3) \<and>
   fst (zone_or_utc five_users (Some ''America/New_York'') world0) = Inr New_York \<and>
   no_later_day_jump (offsets New_York) \<and>
   (\<exists>s1 s2 s3 d w'.
      compute_window five_users (Some ''America/New_York'') world0 = (Inr (s1, s2, s3, d), w') \<and>
      s1 < s2 \<and> s2 < s3)"
proof -
  have h1: "fst (zone_or_utc five_users (Some ''Pacific/Apia'') world0) = Inr Apia"
    by code_simp
  have h2: "fst (zone_or_utc five_users (Some ''America/New_York'') world0) = Inr New_York"
    by code_simp
  have a1: "\<not> no_later_day_jump (offsets Apia)" by code_simp
  have a2: "no_later_day_jump (offsets New_York)" by code_simp
  have v1: "fst (compute_window five_users (Some ''Pacific/Apia'') world0)
     = Inr (1709978400000000, 1710064800000000, 1710151200000000, 19793)"
    by code_simp
  have d1: "utcoffset Apia (19793 * DAY) - utcoffset Apia ((19793 - 1) * DAY) = 0"
    by code_simp
  have d2: "utcoffset Apia ((19793 + 1) * DAY) - utcoffset Apia (19793 * DAY) = 0"
    by code_simp
  from window_strictly_ordered[OF h1] obtain s1 s2 s3 d w' where
    cw: "compute_window five_users (Some ''Pacific/Apia'') world0 = (Inr (s1, s2, s3, d), w')"
    and o1: "(s1 < s2) = (utcoffset Apia (d * DAY) - utcoffset Apia ((d - 1) * DAY) < 86400)"
    and o2: "(s2 < s3) = (utcoffset Apia ((d + 1) * DAY) - utcoffset Apia (d * DAY) < 86400)"
    by blast
  from cw v1 have d: "d = 19793" by simp
  from o1 o2 d1 d2 have "s1 < s2 \<and> s2 < s3"
    unfolding d by simp
  with cw d have apia: "\<exists>s1 s2 s3 w'.
      compute_window five_users (Some ''Pacific/Apia'') world0 = (Inr (s1, s2, s3, 19793), w') \<and>
      s1 < s2 \<and> s2 < s3"
    by blast
  from window_strictly_ordered[OF h2] a2 have ny: "\<exists>s1 s2 s3 d w'.
      compute_window five_users (Some ''America/New_York'') world0 = (Inr (s1, s2, s3, d), w') \<and>
      s1 < s2 \<and> s2 < s3"
    by blast
  from h1 a1 d1 d2 apia h2 a2 ny show ?thesis
    by (intro conjI)
qed

text \<open>
  C2, as stated, fails: in \<open>Pacific/Apia\<close> at 2011-12-30T12:00Z the local date is 31
  December, local midnight of the skipped 30 December and local midnight of 31 December
  are the same UTC instant, and \<open>yesterdayStart = todayStart\<close>.
\<close>

theorem window_ordering_counterexample:
  "fst (compute_window apia_env (Some ''Pacific/Apia'') world0)
     = Inr (1325152800000000, 1325239200000000, 1325239200000000, 15338) \<and>
   \<not> window_ordered (1325152800000000, 1325239200000000, 1325239200000000, 15338)"
  by code_simp

section \<open>Determinism of the calculator and the classifier\<close>

lemma zone_or_utc_snd:
  "snd (zone_or_utc e tz_name w) = w \<or>
   snd (zone_or_utc e tz_name w) = log_msg WARNING ''invalid_timezone'' w"
  by (simp add: zone_or_utc_def split: sum.splits)

lemma compute_window_fst:
  "fst (compute_window e tz_name w) =
     (case fst (zone_or_utc e tz_name w) of
        Inl x \<Rightarrow> Inl x
      | Inr zone \<Rightarrow> Inr (window_in zone (clock e (ticks w))))"
proof -
  let ?w1 = "w\<lparr>ticks := Suc (ticks w)\<rparr>"
  obtain r w2 where z: "zone_or_utc e tz_name ?w1 = (r, w2)"
    by (cases "zone_or_utc e tz_name ?w1")
  have "fst (zone_or_utc e tz_name w) = r"
    using zone_or_utc_fst[of e tz_name w ?w1] z by simp
  then show ?thesis
    by (simp add: compute_window_def datetime_now_def z split: sum.splits)
qed

lemma classify_days_fst:
  "fst (classify_days e tz_name created_list w) =
     (case fst (zone_or_utc e tz_name w) of
        Inl x \<Rightarrow> Inl x
      | Inr z \<Rightarrow> Inr (classify_loop z created_list {}))"
  by (simp add: classify_days_def split: prod.splits sum.splits)

lemma classifier_effects:
  "sent (snd (classify_days e tz_name created_list w)) = sent w \<and>
   ticks (snd (classify_days e tz_name created_list w)) = ticks w \<and>
   (logged (snd (classify_days e tz_name created_list w)) = logged w \<or>
    logged (snd (classify_days e tz_name created_list w))
      = logged w @ [(WARNING, ''invalid_timezone'')])"
  by (simp add: classify_days_def zone_or_utc_def log_msg_def split: sum.splits prod.splits)

text \<open>
  C8. \<open>_compute_window\<close> called in two states of the world whose clocks read the same
  instant returns the same result for the same zone name, and \<open>_classify_days\<close> returns
  the same set for the same zone name and the same list of logs in any two states, in
  particular when it is called again in the state its first call left: the results
  depend on nothing but the zone name, the instant read and the list.
\<close>

theorem calculator_and_classifier_deterministic:
  assumes "clock e (ticks w) = clock e (ticks w')"
  shows "fst (compute_window e tz_name w) = fst (compute_window e tz_name w') \<and>
         fst (classify_days e tz_name created_list w)
           = fst (classify_days e tz_name created_list w') \<and>
         fst (classify_days e tz_name created_list
                (snd (classify_days e tz_name created_list w)))
           = fst (classify_days e tz_name created_list w)"
proof -
  have z: "fst (zone_or_utc e tz_name w) = fst (zone_or_utc e tz_name w')"
    by (rule zone_or_utc_fst)
  have z2: "fst (zone_or_utc e tz_name (snd (classify_days e tz_name created_list w)))
              = fst (zone_or_utc e tz_name w)"
    by (rule zone_or_utc_fst)
  have "fst (compute_window e tz_name w) = fst (compute_window e tz_name w')"
    by (simp add: compute_window_fst z assms split: sum.splits)
  moreover have "fst (classify_days e tz_name created_list w)
           = fst (classify_days e tz_name created_list w')"
    by (simp add: classify_days_fst z)
  moreover have "fst (classify_days e tz_name created_list
                (snd (classify_days e tz_name created_list w)))
           = fst (classify_days e tz_name created_list w)"
    by (simp only: classify_days_fst z2)
  ultimately show ?thesis by simp
qed

theorem calculator_and_classifier_deterministic_witness:
  "clock apia_env (ticks world0)
     = clock apia_env (ticks (snd (compute_window apia_env (Some ''Pacific/Apia'') world0))) \<and>
   fst (compute_window apia_env (Some ''Pacific/Apia'')
          (snd (compute_window apia_env (Some ''Pacific/Apia'') world0)))
     = fst (compute_window apia_env (Some ''Pacific/Apia'') world0) \<and>
   fst (classify_days apia_env (Some ''Mars/Phobos'') [Naive 1325239200000000, Aware 5]
          (snd (classify_days apia_env (Some ''Mars/Phobos'')
                  [Naive 1325239200000000, Aware 5] world0)))
     = Inr {15338, 0}"
proof -
  let ?w' = "snd (compute_window apia_env (Some ''Pacific/Apia'') world0)"
  have h: "clock apia_env (ticks world0) = clock apia_env (ticks ?w')"
    by (simp add: apia_env_def)
  have v: "fst (classify_days apia_env (Some ''Mars/Phobos'') [Naive 1325239200000000, Aware 5]
                  world0) = Inr {15338, 0}"
    by code_simp
  from calculator_and_classifier_deterministic[OF h,
         of "Some ''Pacific/Apia''" "[Naive 1325239200000000, Aware 5]"]
       calculator_and_classifier_deterministic[OF refl,
         of apia_env "Some ''Mars/Phobos''" world0 "[Naive 1325239200000000, Aware 5]"]
       h v
  show ?thesis by simp
qed

section \<open>The three decision rules\<close>

text \<open>
  C6. The decision blocks of \<open>run_job\<close> and of \<open>get_users_needing_notification\<close> give the
  same notify/skip answer and the same reason class for every pair of booleans, and the
  count-based rule of \<open>habit-tracker-cronjob\<close> disagrees with them: for a user with two
  logs on the day before yesterday and none yesterday both of them notify and the
  count-based query does not select the user, although with one such log (the same two
  booleans) it does.
\<close>

theorem canonical_rules_agree_legacy_differs:
  "(\<forall>has_day_before has_yesterday.
      verdict_of (decide has_day_before has_yesterday)
        = verdict_of (hn_decide has_yesterday has_day_before) \<and>
      fst (decide has_day_before has_yesterday)
        = fst (hn_decide has_yesterday has_day_before)) \<and>
   fst (run_job legacy_env ''+15550000'' world0) = Inr (1, 0, 0) \<and>
   fst (get_users_needing_notification legacy_env world0)
     = Inr [(1, ''+15550001'', ''Logged 2 days ago but not yesterday'')] \<and>
   fst (get_users_to_notify legacy_env world0) = Inr [] \<and>
   fst (run_job (legacy_env\<lparr>log_rows := [(1, 1710003600 * SEC)]\<rparr>) ''+15550000'' world0)
     = Inr (1, 0, 0) \<and>
   fst (get_users_to_notify (legacy_env\<lparr>log_rows := [(1, 1710003600 * SEC)]\<rparr>) world0)
     = Inr [1]"
proof -
  have a: "\<forall>has_day_before has_yesterday.
      verdict_of (decide has_day_before has_yesterday)
        = verdict_of (hn_decide has_yesterday has_day_before) \<and>
      fst (decide has_day_before has_yesterday)
        = fst (hn_decide has_yesterday has_day_before)"
    by (simp add: decide_def hn_decide_def verdict_of_def)
  have b: "fst (run_job legacy_env ''+15550000'' world0) = Inr (1, 0, 0)"
    by code_simp
  have c: "fst (get_users_needing_notification legacy_env world0)
     = Inr [(1, ''+15550001'', ''Logged 2 days ago but not yesterday'')]"
    by code_simp
  have d: "fst (get_users_to_notify legacy_env world0) = Inr []"
    by code_simp
  have e: "fst (run_job (legacy_env\<lparr>log_rows := [(1, 1710003600 * SEC)]\<rparr>) ''+15550000''
             world0) = Inr (1, 0, 0)"
    by code_simp
  have f: "fst (get_users_to_notify (legacy_env\<lparr>log_rows := [(1, 1710003600 * SEC)]\<rparr>)
             world0) = Inr [1]"
    by code_simp
  from a b c d e f show ?thesis by blast
qed

section \<open>Unresolvable zone names\<close>

text \<open>
  In \<open>logic.py\<close> every name \<open>ZoneInfo\<close> refuses (NULL, empty, unknown) makes both
  \<open>_compute_window\<close> and \<open>_classify_days\<close> log one warning and go on with the zone the data
  has under \<open>"UTC"\<close>. In \<open>habit_notifier.py\<close> only a NULL or empty name is replaced by UTC.
\<close>

lemma fallback_to_utc:
  assumes "ZoneInfo e tz_name = Inl x" and "ZoneInfo e (Some ''UTC'') = Inr u"
  shows "compute_window e tz_name w =
           (Inr (window_in u (clock e (ticks w))),
            log_msg WARNING ''invalid_timezone'' (w\<lparr>ticks := Suc (ticks w)\<rparr>))"
    and "classify_days e tz_name created_list w =
           (Inr (classify_loop u created_list {}), log_msg WARNING ''invalid_timezone'' w)"
  using assms
  by (simp_all add: compute_window_def classify_days_def zone_or_utc_def datetime_now_def)

lemma unresolved_names:
  "ZoneInfo e None = Inl TypeError" "ZoneInfo e (Some []) = Inl ValueError"
  "map_of (tzdata e) name = None \<Longrightarrow> name \<noteq> [] \<Longrightarrow>
     ZoneInfo e (Some name) = Inl ZoneInfoNotFoundError"
  by (simp_all add: ZoneInfo_def)

lemma hn_user_tz_unknown:
  "name \<noteq> [] \<Longrightarrow> map upper_char name \<noteq> ''UTC'' \<Longrightarrow>
   map_of (tzdata e) (case_insensitive_zone_lookup e (unmunge_zone name)) = None \<Longrightarrow>
   hn_user_tz e (Some name) = Inl UnknownTimeZoneError"
  by (simp add: hn_user_tz_def pytz_timezone_def)

lemma hn_user_tz_empty: "hn_user_tz e None = Inr UTC" "hn_user_tz e (Some []) = Inr UTC"
  by (simp_all add: hn_user_tz_def)

text \<open>
  C4. An unresolvable zone name is replaced by UTC without raising. \<open>logic.py\<close> does so
  (\<open>fallback_to_utc\<close>); \<open>habit_notifier.py\<close> does not for an unknown, non-empty name:
  with user 4 in the zone \<open>Mars/Phobos\<close>, \<open>pytz.timezone\<close> raises, the exception leaves the
  loop and \<open>get_users_needing_notification\<close> ends with it for the whole population, where
  \<open>run_job\<close> on the same data counts no error.
\<close>

theorem unknown_zone_aborts_habit_notifier:
  "hn_user_tz unknown_zone_env (Some ''Mars/Phobos'') = Inl UnknownTimeZoneError \<and>
   fst (get_users_needing_notification unknown_zone_env world0) = Inl UnknownTimeZoneError \<and>
   fst (zone_or_utc unknown_zone_env (Some ''Mars/Phobos'') world0) = Inr UTC \<and>
   fst (run_job unknown_zone_env ''+15550000'' world0) = Inr (2, 3, 0)"
  by code_simp

section \<open>Day boundaries across a change of offset\<close>

lemma hn_boundaries_24h:
  "hn_boundaries z now_utc = (s0, s1, s2, y, t) \<Longrightarrow> s1 - s0 = DAY \<and> s2 - s1 = DAY"
  by (auto simp: hn_boundaries_def Let_def)

lemma dst_day_length:
  assumes "utcoffset z ((d + 1) * DAY) - utcoffset z (d * DAY) = 3600 \<or>
           utcoffset z ((d + 1) * DAY) - utcoffset z (d * DAY) = - 3600"
  shows "start_of_day_utc z d < start_of_day_utc z (d + 1) \<and>
         (start_of_day_utc z (d + 1) - start_of_day_utc z d = 23 * 3600 * SEC \<or>
          start_of_day_utc z (d + 1) - start_of_day_utc z d = 25 * 3600 * SEC)"
  using assms day_length[of z d] by auto

text \<open>
  C5. Across a daylight-saving change the consecutive boundaries are 23 or 25 hours
  apart. \<open>_compute_window\<close> does so (\<open>dst_day_length\<close>; in New York 10 March 2024 is 23 hours
  long). The boundaries of \<open>habit_notifier.py\<close> are always exactly 24 hours apart
  (\<open>hn_boundaries_24h\<close>), so two of them are an hour off local midnight; on 4 November 2024
  its window starts an hour late, a log made at 00:30 local time on 2 November is not
  fetched, and the user is reported with no log in two days where \<open>run_job\<close> finds the
  log of the day before.
\<close>

theorem habit_notifier_assumes_24_hour_days:
  "window_in New_York (1710172800 * SEC)
     = (1709960400000000, 1710046800000000, 1710129600000000, 19792) \<and>
   hn_boundaries New_York (1710172800 * SEC)
     = (1709956800000000, 1710043200000000, 1710129600000000, 19792, 19791) \<and>
   (1710129600000000 - 1710046800000000 :: int) = 23 * 3600 * SEC \<and>
   (1710129600000000 - 1710043200000000 :: int) = 24 * 3600 * SEC \<and>
   window_in New_York (1730739600 * SEC)
     = (1730520000000000, 1730606400000000, 1730696400000000, 20030) \<and>
   hn_boundaries New_York (1730739600 * SEC)
     = (1730523600000000, 1730610000000000, 1730696400000000, 20030, 20029) \<and>
   fetch_user_logs_between november_env world0 1 1730520000000000 1730696400000000
     = Inr [Naive 1730521800000000] \<and>
   decide (20029 \<in> classify_loop New_York [Naive 1730521800000000] {})
          (20030 \<in> classify_loop New_York [Naive 1730521800000000] {})
     = (True, ''missed_yesterday'') \<and>
   hn_matched_logs november_env 1 1730523600000000 = [] \<and>
   fst (get_users_needing_notification november_env world0)
     = Inr [(1, ''+15550001'', ''No logs in the past 2 days'')]"
  by code_simp

section \<open>The interval of the logs query\<close>

lemma fetch_half_open:
  assumes "fetch_user_logs_between e w user_id start_utc end_utc = Inr logs"
  shows "set logs = Naive ` {c. (user_id, c) \<in> set (log_rows e) \<and> start_utc \<le> c \<and> c < end_utc}"
  using assms
  by (auto simp: fetch_user_logs_between_def image_iff split: if_splits)

lemma hn_matched_logs_set:
  "set (hn_matched_logs e user_id start_utc)
     = {c. (user_id, c) \<in> set (log_rows e) \<and> start_utc \<le> c}"
  by (auto simp: hn_matched_logs_def image_iff)

lemma classify_loop_set:
  "classify_loop z created_list days = days \<union> (\<lambda>dt. local_date z (as_utc dt)) ` set created_list"
  by (induction created_list arbitrary: days) auto

lemma classified_days_of_window:
  assumes "fetch_user_logs_between e w user_id s1 s3 = Inr logs"
  shows "classify_loop z logs {} =
           local_date z ` {c. (user_id, c) \<in> set (log_rows e) \<and> s1 \<le> c \<and> c < s3}"
  using fetch_half_open[OF assms]
  by (auto simp: classify_loop_set image_iff)

text \<open>
  C7. The logs fetched for a user are those in \<open>[windowStart, todayStart)\<close>.
  \<open>fetch_user_logs_between\<close> does so (\<open>fetch_half_open\<close>). The query of
  \<open>habit_notifier.py\<close> has the lower bound only (\<open>hn_matched_logs_set\<close>): for user 1 it also
  matches the log made today, at or after \<open>todayStart\<close>, which the query of \<open>db.py\<close> leaves
  out.
\<close>

theorem habit_notifier_query_has_no_upper_bound:
  "hn_boundaries UTC (clock five_users 0)
     = (1709942400000000, 1710028800000000, 1710115200000000, 19792, 19791) \<and>
   window_in UTC (clock five_users 0)
     = (1709942400000000, 1710028800000000, 1710115200000000, 19792) \<and>
   hn_matched_logs five_users 1 1709942400000000 = [1710072000000000, 1710160000000000] \<and>
   fetch_user_logs_between five_users world0 1 1709942400000000 1710115200000000
     = Inr [Naive 1710072000000000] \<and>
   (1710115200000000 :: int) \<le> 1710160000000000"
  by code_simp

end
